theory Spec2Isabelle
  imports Complex_Main "HOL-Library.Word"
begin

section \<open>Single-precision arithmetic used by the renderer\<close>

text \<open>
  \<^verbatim>\<open>FullPipelineRenderer::setUp\<close> computes its grid size, its loop bounds and the
  arguments of every transform in C \<^verbatim>\<open>float\<close>. A \<^verbatim>\<open>float\<close> is modelled by the value
  it denotes: a rational number, an infinity or a NaN. Every operation computes the exact
  result and rounds it to the nearest binary32 value, ties to the even significand
  (24 significant bits, exponents from -126 to 127, subnormals down to \<open>2 powi (-149)\<close>,
  overflow to an infinity), as the Android targets of this code evaluate \<^verbatim>\<open>float\<close>
  expressions. The sign of a zero is not tracked: the only divisors that can
  be zero here are \<^verbatim>\<open>(float) height\<close> and \<^verbatim>\<open>count\<close>, and neither is ever a negative zero.
\<close>

datatype f32 = Finite rat | PosInf | NegInf | NaN

text \<open>
  The exponent of the binade of \<open>a\<close>: the greatest \<open>e\<close> from -126 to 127 with
  \<open>2 powi e \<le> a\<close>, and -126 (the subnormal range) if there is none. The search starts
  at \<open>e = 127\<close>.
\<close>

function f32_exponent :: "int \<Rightarrow> rat \<Rightarrow> int" where
  "f32_exponent e a = (if e \<le> -126 \<or> 2 powi e \<le> a then e else f32_exponent (e - 1) a)"
  by pat_completeness auto
termination
  by (relation "measure (\<lambda>(e, a). nat (e + 126))") auto

declare f32_exponent.simps [simp del]

definition round_half_even :: "rat \<Rightarrow> int" where
  "round_half_even q =
     (let f = \<lfloor>q\<rfloor>; r = q - of_int f
      in if r < 1 / 2 then f else if 1 / 2 < r then f + 1
         else if even f then f else f + 1)"

definition f32_round :: "rat \<Rightarrow> f32" where
  "f32_round x =
     (let a = \<bar>x\<bar>;
          u = 2 powi (f32_exponent 127 a - 23);
          y = of_int (round_half_even (a / u)) * u
      in if 2 powi 128 \<le> y then (if x < 0 then NegInf else PosInf)
         else Finite (sgn x * y))"

text \<open>The conversion of an \<^verbatim>\<open>int\<close> to \<^verbatim>\<open>float\<close>.\<close>

definition f32_of_int :: "int \<Rightarrow> f32" where
  "f32_of_int i = f32_round (of_int i)"

text \<open>
  \<^verbatim>\<open>pow(2, n)\<close> is computed in double precision and converted to \<^verbatim>\<open>float\<close> by the
  assignment to \<^verbatim>\<open>float count\<close>. The double is the exact power of two, an infinity
  (\<open>1024 \<le> n\<close>) or zero (\<open>n < -1074\<close>), and in each case the conversion gives what
  rounding the exact power of two to binary32 gives.
\<close>

definition pow2f :: "int \<Rightarrow> f32" where
  "pow2f n = f32_round (2 powi n)"

fun f32_neg :: "f32 \<Rightarrow> f32" where
  "f32_neg (Finite a) = Finite (- a)"
| "f32_neg PosInf = NegInf"
| "f32_neg NegInf = PosInf"
| "f32_neg NaN = NaN"

fun f32_sub :: "f32 \<Rightarrow> f32 \<Rightarrow> f32" where
  "f32_sub NaN _ = NaN"
| "f32_sub _ NaN = NaN"
| "f32_sub (Finite a) (Finite b) = f32_round (a - b)"
| "f32_sub (Finite a) PosInf = NegInf"
| "f32_sub (Finite a) NegInf = PosInf"
| "f32_sub PosInf PosInf = NaN"
| "f32_sub PosInf _ = PosInf"
| "f32_sub NegInf NegInf = NaN"
| "f32_sub NegInf _ = NegInf"

fun f32_div :: "f32 \<Rightarrow> f32 \<Rightarrow> f32" where
  "f32_div NaN _ = NaN"
| "f32_div _ NaN = NaN"
| "f32_div (Finite a) (Finite b) =
     (if b = 0 then (if a = 0 then NaN else if 0 < a then PosInf else NegInf)
      else f32_round (a / b))"
| "f32_div (Finite a) _ = Finite 0"
| "f32_div PosInf (Finite b) = (if b < 0 then NegInf else PosInf)"
| "f32_div NegInf (Finite b) = (if b < 0 then PosInf else NegInf)"
| "f32_div _ _ = NaN"

fun f32_less :: "f32 \<Rightarrow> f32 \<Rightarrow> bool" where
  "f32_less NaN _ = False"
| "f32_less _ NaN = False"
| "f32_less (Finite a) (Finite b) = (a < b)"
| "f32_less (Finite a) PosInf = True"
| "f32_less NegInf (Finite b) = True"
| "f32_less NegInf PosInf = True"
| "f32_less _ _ = False"

section \<open>The objects the renderer owns\<close>

type_synonym GLuint = "32 word"

text \<open>
  The two shader sources are string constants of the file; the renderer only passes them
  on to \<^verbatim>\<open>GLUtils::createProgram\<close>, so they are kept as two names.
\<close>

datatype shader_source = FP_VERTEX | FP_FRAGMENT

datatype program = FullPipelineProgram GLuint

text \<open>
  \<^verbatim>\<open>Matrix\<close> is a class of another directory. A matrix is the sequence of \<^verbatim>\<open>Matrix\<close>
  calls that built it, with their arguments, left uninterpreted.
\<close>

datatype matrix =
    Matrix_new
  | Matrix_newLookAt f32 f32 f32 f32 f32 f32 f32 f32 f32
  | Matrix_newFrustum f32 f32 f32 f32 f32 f32
  | Matrix_newScale f32 f32 f32
  | Matrix_translate matrix f32 f32 f32
  | Matrix_identity matrix

datatype mesh = Mesh "f32 list" "f32 list" "f32 list" int GLuint

datatype node =
    ProgramNode "node list"
  | TransformationNode matrix "node list"
  | FullPipelineMesh mesh

definition FP_NUM_VERTICES :: int where
  "FP_NUM_VERTICES = 6"

definition FP_VERTICES :: "f32 list" where
  "FP_VERTICES =
     [Finite 1, Finite 1, Finite 0,
      Finite 0, Finite 1, Finite 0,
      Finite 0, Finite 0, Finite 0,
      Finite 0, Finite 0, Finite 0,
      Finite 1, Finite 0, Finite 0,
      Finite 1, Finite 1, Finite 0]"

definition FP_NORMALS :: "f32 list" where
  "FP_NORMALS =
     [Finite 0, Finite 0, Finite 1,
      Finite 0, Finite 0, Finite 1,
      Finite 0, Finite 0, Finite 1,
      Finite 0, Finite 0, Finite 1,
      Finite 0, Finite 0, Finite 1,
      Finite 0, Finite 0, Finite 1]"

definition FP_TEX_COORDS :: "f32 list" where
  "FP_TEX_COORDS =
     [Finite 1, Finite 1,
      Finite 0, Finite 1,
      Finite 0, Finite 0,
      Finite 0, Finite 0,
      Finite 1, Finite 0,
      Finite 1, Finite 1]"

section \<open>The renderer and its environment\<close>

text \<open>
  The fields of the base class \<^verbatim>\<open>Renderer\<close> that this file reads. The base class itself
  is in another directory.
\<close>

record renderer_base =
  mWorkload :: int
  width :: int
  height :: int
  mFboId :: GLuint
  mEglDisplay :: nat
  mEglSurface :: nat

text \<open>
  A \<^verbatim>\<open>FullPipelineRenderer\<close>: its base-class part and its own fields. A pointer field
  is \<open>None\<close> when it is \<^verbatim>\<open>NULL\<close> and otherwise holds the object it points to.
\<close>

record renderer =
  super :: renderer_base
  mProgram :: "program option"
  mSceneGraph :: "node option"
  mModelMatrix :: "matrix option"
  mViewMatrix :: "matrix option"
  mProjectionMatrix :: "matrix option"
  mMesh :: "mesh option"
  mTextureId :: GLuint

text \<open>
  What the code outside this file answers: the two base-class methods (they act on the
  base-class part and return a \<^verbatim>\<open>bool\<close>), the two \<^verbatim>\<open>GLUtils\<close> helpers, the error
  code that \<^verbatim>\<open>glGetError\<close> reports after the frame was drawn, and the \<^verbatim>\<open>EGLBoolean\<close>
  of \<^verbatim>\<open>eglSwapBuffers\<close>.
\<close>

record externals =
  Renderer_setUp :: "renderer_base \<Rightarrow> bool \<times> renderer_base"
  Renderer_tearDown :: "renderer_base \<Rightarrow> bool \<times> renderer_base"
  GLUtils_createProgram :: "shader_source \<Rightarrow> shader_source \<Rightarrow> GLuint"
  GLUtils_genRandTex :: "int \<Rightarrow> int \<Rightarrow> GLuint"
  glGetError :: GLuint
  eglSwapBuffers :: "nat \<Rightarrow> nat \<Rightarrow> GLuint"

datatype gl_target = GL_FRAMEBUFFER

datatype gl_capability = GL_CULL_FACE | GL_DEPTH_TEST

datatype gl_buffer_bit = GL_DEPTH_BUFFER_BIT | GL_COLOR_BUFFER_BIT

definition GL_NO_ERROR :: GLuint where
  "GL_NO_ERROR = 0"

text \<open>
  The calls a method makes to code outside this file, in the order it makes them. The
  mask of \<^verbatim>\<open>glClear\<close> is the set of the buffer bits that are or-ed together.
\<close>

datatype call =
    Call_Renderer_setUp
  | Call_Renderer_tearDown
  | Call_createProgram shader_source shader_source
  | Call_genRandTex int int
  | Call_glDeleteTextures GLuint
  | Call_glBindFramebuffer gl_target GLuint
  | Call_glClearColor f32 f32 f32 f32
  | Call_glEnable gl_capability
  | Call_glClear "gl_buffer_bit set"
  | Call_Matrix_identity
  | Call_SceneGraph_draw node program matrix matrix matrix
  | Call_glGetError
  | Call_ALOGV_GLError GLuint
  | Call_glFinish
  | Call_eglSwapBuffers nat nat
  | Call_delete_matrix "matrix option"
  | Call_delete_program "program option"
  | Call_delete_node "node option"
  | Call_delete_mesh "mesh option"

section \<open>setUp\<close>

definition INT_MAX :: int where
  "INT_MAX = 2147483647"

definition INT_MIN :: int where
  "INT_MIN = - 2147483648"

text \<open>
  The inner loop \<^verbatim>\<open>for (int j = 0; j < count; j++)\<close>. The test converts \<open>j\<close> to
  \<^verbatim>\<open>float\<close>. The body builds the transform, appends the transformation node to the
  children of the scene graph and gives it one mesh node. \<^verbatim>\<open>j++\<close> at \<^verbatim>\<open>INT_MAX\<close>
  is a signed overflow, which has no defined behaviour: the result is \<open>None\<close>.
\<close>

function inner_loop ::
  "f32 \<Rightarrow> f32 \<Rightarrow> f32 \<Rightarrow> mesh \<Rightarrow> int \<Rightarrow> int \<Rightarrow> node list \<Rightarrow> node list option" where
  "inner_loop count middle scale mMesh' i j children =
     (if f32_less (f32_of_int j) count then
        let transformMatrix =
              Matrix_translate (Matrix_newScale scale scale scale)
                (f32_sub (f32_of_int i) middle) (f32_sub (f32_of_int j) middle) (Finite 0);
            transformNode = TransformationNode transformMatrix [FullPipelineMesh mMesh'];
            children = children @ [transformNode]
        in if INT_MAX \<le> j then None
           else inner_loop count middle scale mMesh' i (j + 1) children
      else Some children)"
  by pat_completeness auto
termination
  by (relation "measure (\<lambda>(count, middle, scale, mMesh', i, j, children). nat (INT_MAX - j))")
    auto

declare inner_loop.simps [simp del]

text \<open>The outer loop \<^verbatim>\<open>for (int i = 0; i < count; i++)\<close>.\<close>

function outer_loop ::
  "f32 \<Rightarrow> f32 \<Rightarrow> f32 \<Rightarrow> mesh \<Rightarrow> int \<Rightarrow> node list \<Rightarrow> node list option" where
  "outer_loop count middle scale mMesh' i children =
     (if f32_less (f32_of_int i) count then
        (case inner_loop count middle scale mMesh' i 0 children of
           None \<Rightarrow> None
         | Some children \<Rightarrow>
             if INT_MAX \<le> i then None
             else outer_loop count middle scale mMesh' (i + 1) children)
      else Some children)"
  by pat_completeness auto
termination
  by (relation "measure (\<lambda>(count, middle, scale, mMesh', i, children). nat (INT_MAX - i))")
    auto

declare outer_loop.simps [simp del]

text \<open>
  \<^verbatim>\<open>FullPipelineRenderer::setUp\<close>. The result is \<open>None\<close> when the method has no
  defined return (a signed overflow), and otherwise the returned \<^verbatim>\<open>bool\<close>, the renderer
  afterwards and the outside calls made. Allocation with \<^verbatim>\<open>new\<close> is taken to succeed.
\<close>

definition setUp :: "externals \<Rightarrow> renderer \<Rightarrow> (bool \<times> renderer \<times> call list) option" where
  "setUp ext r =
     (let (ok, b) = Renderer_setUp ext (super r);
          r = r\<lparr>super := b\<rparr>;
          calls = [Call_Renderer_setUp]
      in if \<not> ok then Some (False, r, calls)
      else
      let programId = GLUtils_createProgram ext FP_VERTEX FP_FRAGMENT;
          calls = calls @ [Call_createProgram FP_VERTEX FP_FRAGMENT]
      in if programId = 0 then Some (False, r, calls)
      else
      let r = r\<lparr>mProgram := Some (FullPipelineProgram programId)\<rparr>;
          r = r\<lparr>mModelMatrix := Some Matrix_new\<rparr>;
          eyeX = Finite 0; eyeY = Finite 0; eyeZ = Finite 2;
          centerX = Finite 0; centerY = Finite 0; centerZ = Finite 0;
          upX = Finite 0; upY = Finite 1; upZ = Finite 0;
          r = r\<lparr>mViewMatrix :=
                 Some (Matrix_newLookAt eyeX eyeY eyeZ centerX centerY centerZ upX upY upZ)\<rparr>;
          ratio = f32_div (f32_of_int (width (super r))) (f32_of_int (height (super r)));
          left = f32_neg ratio; right = ratio;
          bottom = Finite (- 1); top' = Finite 1;
          near = Finite 1; far = Finite 3;
          r = r\<lparr>mProjectionMatrix := Some (Matrix_newFrustum left right bottom top' near far)\<rparr>;
          calls = calls @ [Call_genRandTex (width (super r)) (height (super r))];
          r = r\<lparr>mTextureId := GLUtils_genRandTex ext (width (super r)) (height (super r))\<rparr>
      in if mTextureId r = 0 then Some (False, r, calls)
      else if mWorkload (super r) - 1 < INT_MIN then None
      else
      let count = pow2f (mWorkload (super r) - 1);
          middle = f32_div count (Finite 2);
          scale = f32_div (Finite 1) count;
          mesh = Mesh FP_VERTICES FP_NORMALS FP_TEX_COORDS FP_NUM_VERTICES (mTextureId r);
          r = r\<lparr>mMesh := Some mesh\<rparr>;
          r = r\<lparr>mSceneGraph := Some (ProgramNode [])\<rparr>
      in case outer_loop count middle scale mesh 0 [] of
           None \<Rightarrow> None
         | Some children \<Rightarrow> Some (True, r\<lparr>mSceneGraph := Some (ProgramNode children)\<rparr>, calls))"

section \<open>tearDown\<close>

text \<open>
  \<^verbatim>\<open>FullPipelineRenderer::tearDown\<close>. \<^verbatim>\<open>delete\<close> of a \<^verbatim>\<open>NULL\<close> pointer does nothing,
  so the method always returns.
\<close>

definition tearDown :: "externals \<Rightarrow> renderer \<Rightarrow> bool \<times> renderer \<times> call list" where
  "tearDown ext r =
     (let (r, calls) =
            (if mTextureId r \<noteq> 0
             then (r\<lparr>mTextureId := 0\<rparr>, [Call_glDeleteTextures (mTextureId r)])
             else (r, []));
          (ok, b) = Renderer_tearDown ext (super r);
          r = r\<lparr>super := b\<rparr>;
          calls = calls @ [Call_Renderer_tearDown]
      in if \<not> ok then (False, r, calls)
      else
      let calls = calls @ [Call_delete_matrix (mModelMatrix r)];
          r = r\<lparr>mModelMatrix := None\<rparr>;
          calls = calls @ [Call_delete_matrix (mViewMatrix r)];
          r = r\<lparr>mViewMatrix := None\<rparr>;
          calls = calls @ [Call_delete_matrix (mProjectionMatrix r)];
          r = r\<lparr>mProjectionMatrix := None\<rparr>;
          calls = calls @ [Call_delete_program (mProgram r)];
          r = r\<lparr>mProgram := None\<rparr>;
          calls = calls @ [Call_delete_node (mSceneGraph r)];
          r = r\<lparr>mSceneGraph := None\<rparr>;
          calls = calls @ [Call_delete_mesh (mMesh r)];
          r = r\<lparr>mMesh := None\<rparr>
      in (True, r, calls))"

section \<open>draw\<close>

text \<open>
  \<^verbatim>\<open>FullPipelineRenderer::draw\<close>. The method dereferences the model matrix, the scene
  graph, the program and the view and projection matrices; with one of them \<^verbatim>\<open>NULL\<close>
  it has no defined behaviour, and the result is \<open>None\<close>. The traversal of the scene
  graph is one call to code outside this file.
\<close>

definition draw ::
  "externals \<Rightarrow> renderer \<Rightarrow> bool \<Rightarrow> (bool \<times> renderer \<times> call list) option" where
  "draw ext r offscreen =
     (case (mModelMatrix r, mSceneGraph r, mProgram r, mViewMatrix r, mProjectionMatrix r) of
        (Some model, Some sceneGraph, Some program, Some view, Some projection) \<Rightarrow>
          let calls =
                [Call_glBindFramebuffer GL_FRAMEBUFFER (if offscreen then mFboId (super r) else 0),
                 Call_glClearColor (Finite 0) (Finite 0) (Finite 0) (Finite 0),
                 Call_glEnable GL_CULL_FACE,
                 Call_glEnable GL_DEPTH_TEST,
                 Call_glClear {GL_DEPTH_BUFFER_BIT, GL_COLOR_BUFFER_BIT}];
              model = Matrix_identity model;
              r = r\<lparr>mModelMatrix := Some model\<rparr>;
              calls = calls @ [Call_Matrix_identity];
              calls = calls @ [Call_SceneGraph_draw sceneGraph program model view projection];
              err = glGetError ext;
              calls = calls @ [Call_glGetError]
          in if err \<noteq> GL_NO_ERROR then Some (False, r, calls @ [Call_ALOGV_GLError err])
             else if offscreen then Some (True, r, calls @ [Call_glFinish])
             else Some (eglSwapBuffers ext (mEglDisplay (super r)) (mEglSurface (super r)) \<noteq> 0,
                        r, calls @ [Call_eglSwapBuffers (mEglDisplay (super r)) (mEglSurface (super r))])
      | _ \<Rightarrow> None)"

section \<open>Notions used to state the properties\<close>

text \<open>
  The constructor: the base-class part \<open>b\<close> as \<^verbatim>\<open>Renderer(window, workload)\<close> leaves it,
  every pointer \<^verbatim>\<open>NULL\<close>. The initialiser list does not mention \<^verbatim>\<open>mTextureId\<close>, so its
  first value \<open>t\<close> is whatever the memory holds.
\<close>

definition new_FullPipelineRenderer :: "renderer_base \<Rightarrow> GLuint \<Rightarrow> renderer" where
  "new_FullPipelineRenderer b t =
     \<lparr>super = b, mProgram = None, mSceneGraph = None, mModelMatrix = None,
      mViewMatrix = None, mProjectionMatrix = None, mMesh = None, mTextureId = t\<rparr>"

text \<open>What a method returned, if it returned, and the outside calls it made.\<close>

definition returned :: "(bool \<times> renderer \<times> call list) option \<Rightarrow> bool option" where
  "returned res = (case res of Some (ok, r', calls) \<Rightarrow> Some ok | None \<Rightarrow> None)"

definition calls_of :: "(bool \<times> renderer \<times> call list) option \<Rightarrow> call list" where
  "calls_of res = (case res of Some (ok, r', calls) \<Rightarrow> calls | None \<Rightarrow> [])"

text \<open>The children of the scene-graph root of the renderer a method left behind.\<close>

definition scene_children :: "(bool \<times> renderer \<times> call list) option \<Rightarrow> node list" where
  "scene_children res =
     (case res of
        Some (ok, r', calls) \<Rightarrow>
          (case mSceneGraph r' of Some (ProgramNode children) \<Rightarrow> children | _ \<Rightarrow> [])
      | None \<Rightarrow> [])"

text \<open>
  The answers of the outside code during one \<^verbatim>\<open>setUp\<close>: what \<^verbatim>\<open>Renderer::setUp\<close>
  returns and the base-class part it leaves, the program id, the texture id (the texture
  is generated for the width and height that \<^verbatim>\<open>Renderer::setUp\<close> left), and the
  workload that \<^verbatim>\<open>setUp\<close> reads.
\<close>

definition base_setUp_result :: "externals \<Rightarrow> renderer \<Rightarrow> bool" where
  "base_setUp_result ext r = fst (Renderer_setUp ext (super r))"

definition base_after_setUp :: "externals \<Rightarrow> renderer \<Rightarrow> renderer_base" where
  "base_after_setUp ext r = snd (Renderer_setUp ext (super r))"

definition createProgram_result :: "externals \<Rightarrow> GLuint" where
  "createProgram_result ext = GLUtils_createProgram ext FP_VERTEX FP_FRAGMENT"

definition genRandTex_result :: "externals \<Rightarrow> renderer \<Rightarrow> GLuint" where
  "genRandTex_result ext r =
     GLUtils_genRandTex ext (width (base_after_setUp ext r)) (height (base_after_setUp ext r))"

definition workload :: "externals \<Rightarrow> renderer \<Rightarrow> int" where
  "workload ext r = mWorkload (base_after_setUp ext r)"

text \<open>The quad mesh that \<^verbatim>\<open>setUp\<close> constructs once the texture exists.\<close>

definition quad_mesh :: "externals \<Rightarrow> renderer \<Rightarrow> mesh" where
  "quad_mesh ext r =
     Mesh FP_VERTICES FP_NORMALS FP_TEX_COORDS FP_NUM_VERTICES (genRandTex_result ext r)"

text \<open>
  The renderer and the outside calls at the point where \<^verbatim>\<open>setUp\<close> tests the texture id:
  the program, the three matrices and the texture id are assigned, the mesh and the scene
  graph are not.
\<close>

definition setUp_calls :: "externals \<Rightarrow> renderer \<Rightarrow> call list" where
  "setUp_calls ext r =
     [Call_Renderer_setUp, Call_createProgram FP_VERTEX FP_FRAGMENT,
      Call_genRandTex (width (base_after_setUp ext r)) (height (base_after_setUp ext r))]"

definition setUp_prepared :: "externals \<Rightarrow> renderer \<Rightarrow> renderer" where
  "setUp_prepared ext r =
     r\<lparr>super := base_after_setUp ext r,
       mProgram := Some (FullPipelineProgram (createProgram_result ext)),
       mModelMatrix := Some Matrix_new,
       mViewMatrix := Some (Matrix_newLookAt (Finite 0) (Finite 0) (Finite 2)
                             (Finite 0) (Finite 0) (Finite 0) (Finite 0) (Finite 1) (Finite 0)),
       mProjectionMatrix :=
         Some (let ratio = f32_div (f32_of_int (width (base_after_setUp ext r)))
                             (f32_of_int (height (base_after_setUp ext r)))
               in Matrix_newFrustum (f32_neg ratio) ratio (Finite (- 1)) (Finite 1)
                    (Finite 1) (Finite 3)),
       mTextureId := genRandTex_result ext r\<rparr>"

text \<open>
  The grid as the specification describes it, for a grid size \<open>c\<close> per axis: the node at
  position \<open>(i, j)\<close> has one mesh child and a transform that scales uniformly by \<open>1 / c\<close>
  and then translates by \<open>(i - c / 2, j - c / 2, 0)\<close>; the nodes are added row by row.
\<close>

definition grid_node :: "rat \<Rightarrow> mesh \<Rightarrow> int \<Rightarrow> int \<Rightarrow> node" where
  "grid_node c m i j =
     TransformationNode
       (Matrix_translate (Matrix_newScale (Finite (1 / c)) (Finite (1 / c)) (Finite (1 / c)))
          (Finite (of_int i - c / 2)) (Finite (of_int j - c / 2)) (Finite 0))
       [FullPipelineMesh m]"

definition grid :: "int \<Rightarrow> mesh \<Rightarrow> node list" where
  "grid c m = concat (map (\<lambda>i. map (grid_node (of_int c) m i) [0..c - 1]) [0..c - 1])"

text \<open>
  \<^verbatim>\<open>draw\<close> assumes that the objects it dereferences are live. For such a renderer, the
  calls of one frame up to the error check, and the renderer after the frame.
\<close>

definition live :: "renderer \<Rightarrow> bool" where
  "live r \<longleftrightarrow>
     mModelMatrix r \<noteq> None \<and> mSceneGraph r \<noteq> None \<and> mProgram r \<noteq> None \<and>
     mViewMatrix r \<noteq> None \<and> mProjectionMatrix r \<noteq> None"

definition frame_calls :: "renderer \<Rightarrow> bool \<Rightarrow> call list" where
  "frame_calls r offscreen =
     [Call_glBindFramebuffer GL_FRAMEBUFFER (if offscreen then mFboId (super r) else 0),
      Call_glClearColor (Finite 0) (Finite 0) (Finite 0) (Finite 0),
      Call_glEnable GL_CULL_FACE,
      Call_glEnable GL_DEPTH_TEST,
      Call_glClear {GL_DEPTH_BUFFER_BIT, GL_COLOR_BUFFER_BIT},
      Call_Matrix_identity,
      Call_SceneGraph_draw (the (mSceneGraph r)) (the (mProgram r))
        (Matrix_identity (the (mModelMatrix r))) (the (mViewMatrix r)) (the (mProjectionMatrix r))]"

definition after_frame :: "renderer \<Rightarrow> renderer" where
  "after_frame r = r\<lparr>mModelMatrix := Some (Matrix_identity (the (mModelMatrix r)))\<rparr>"

text \<open>The texture ids that a sequence of calls hands to \<^verbatim>\<open>glDeleteTextures\<close>, in order.\<close>

fun deleted_textures :: "call list \<Rightarrow> GLuint list" where
  "deleted_textures [] = []"
| "deleted_textures (Call_glDeleteTextures t # calls) = t # deleted_textures calls"
| "deleted_textures (c # calls) = deleted_textures calls"


subsection \<open>Concrete inputs\<close>

text \<open>
  A 640 by 480 surface with workload \<open>w\<close>; outside code that succeeds everywhere (program
  id 3, texture id 5, no GL error); and the renderer that a successful \<^verbatim>\<open>setUp\<close> with
  workload 1 leaves behind.
\<close>

definition example_base :: "int \<Rightarrow> renderer_base" where
  "example_base w =
     \<lparr>mWorkload = w, width = 640, height = 480, mFboId = 7, mEglDisplay = 1, mEglSurface = 2\<rparr>"

definition example_externals :: externals where
  "example_externals =
     \<lparr>Renderer_setUp = (\<lambda>b. (True, b)), Renderer_tearDown = (\<lambda>b. (True, b)),
      GLUtils_createProgram = (\<lambda>v f. 3), GLUtils_genRandTex = (\<lambda>w h. 5),
      glGetError = 0, eglSwapBuffers = (\<lambda>d s. 1)\<rparr>"

definition example_live :: renderer where
  "example_live =
     \<lparr>super = example_base 1,
      mProgram = Some (FullPipelineProgram 3),
      mSceneGraph = Some (ProgramNode
        [grid_node 1 (Mesh FP_VERTICES FP_NORMALS FP_TEX_COORDS FP_NUM_VERTICES 5) 0 0]),
      mModelMatrix = Some Matrix_new,
      mViewMatrix = Some (Matrix_newLookAt (Finite 0) (Finite 0) (Finite 2)
                            (Finite 0) (Finite 0) (Finite 0) (Finite 0) (Finite 1) (Finite 0)),
      mProjectionMatrix = Some (Matrix_newFrustum (Finite (- (4 / 3))) (Finite (4 / 3))
                                  (Finite (- 1)) (Finite 1) (Finite 1) (Finite 3)),
      mMesh = Some (Mesh FP_VERTICES FP_NORMALS FP_TEX_COORDS FP_NUM_VERTICES 5),
      mTextureId = 5\<rparr>"

section \<open>Auxiliary facts\<close>

subsection \<open>Where single precision is exact\<close>

text \<open>
  The search for the exponent stays between -126 and its start, and it stops at -126 or
  at a power of two that is not above \<open>a\<close>.
\<close>

lemma f32_exponent_bounds:
  "-126 \<le> e \<Longrightarrow> -126 \<le> f32_exponent e a \<and> f32_exponent e a \<le> e"
proof (induction e a rule: f32_exponent.induct)
  case (1 e a)
  show ?case
  proof (cases "e \<le> -126 \<or> 2 powi e \<le> a")
    case True
    then show ?thesis using "1.prems" by (simp add: f32_exponent.simps [of e a])
  next
    case False
    then have "-126 \<le> e - 1" by simp
    with "1.IH" False have "-126 \<le> f32_exponent (e - 1) a \<and> f32_exponent (e - 1) a \<le> e - 1"
      by blast
    with False show ?thesis by (simp add: f32_exponent.simps [of e a])
  qed
qed

lemma f32_exponent_below:
  "-126 \<le> e \<Longrightarrow> f32_exponent e a = -126 \<or> 2 powi (f32_exponent e a) \<le> a"
proof (induction e a rule: f32_exponent.induct)
  case (1 e a)
  show ?case
  proof (cases "e \<le> -126 \<or> 2 powi e \<le> a")
    case True
    then show ?thesis using "1.prems" by (auto simp add: f32_exponent.simps [of e a])
  next
    case False
    then have "-126 \<le> e - 1" by simp
    with "1.IH" False have "f32_exponent (e - 1) a = -126 \<or> 2 powi (f32_exponent (e - 1) a) \<le> a"
      by blast
    with False show ?thesis by (simp add: f32_exponent.simps [of e a])
  qed
qed

text \<open>
  A value \<open>m * 2 powi e\<close> with fewer than 25 significant bits and an exponent in range
  is a binary32 value: rounding returns it unchanged. So integers up to \<open>2 ^ 24\<close> in
  magnitude and the powers of two in range convert exactly.
\<close>

lemma round_half_even_of_int [simp]: "round_half_even (of_int k) = k"
  by (simp add: round_half_even_def)

lemma f32_round_exact:
  assumes x: "x = of_int m * 2 powi e" and m: "\<bar>m\<bar> < 2 ^ 24" and e: "-149 \<le> e" "e \<le> 104"
  shows "f32_round x = Finite x"
proof -
  define a where "a = \<bar>x\<bar>"
  define E where "E = f32_exponent 127 a"
  have a: "a = of_int \<bar>m\<bar> * 2 powi e"
    by (simp add: a_def x abs_mult)
  have Eb: "-126 \<le> E" "E \<le> 127"
    using f32_exponent_bounds [of 127 a] by (simp_all add: E_def)
  have lt: "a < 2 powi (24 + e)"
  proof -
    have "(of_int \<bar>m\<bar> :: rat) < of_int (2 ^ 24)"
      using m by (subst of_int_less_iff) simp
    then have "(of_int \<bar>m\<bar> :: rat) < 2 powi 24" by simp
    then have "of_int \<bar>m\<bar> * 2 powi e < 2 powi 24 * (2 powi e :: rat)"
      by (intro mult_strict_right_mono) (simp_all add: zero_less_power_int)
    then show ?thesis by (simp add: a power_int_add)
  qed
  have Ee: "E - 23 \<le> e"
  proof (cases "E = -126")
    case True
    then show ?thesis using e by simp
  next
    case False
    then have "2 powi E \<le> a"
      using f32_exponent_below [of 127 a] by (simp add: E_def)
    with lt have pw: "(2::rat) powi E < 2 powi (24 + e)" by simp
    have "E < 24 + e"
    proof (rule ccontr)
      assume "\<not> E < 24 + e"
      then have "(2::rat) powi (24 + e) \<le> 2 powi E"
        by (intro power_int_increasing) simp_all
      with pw show False by simp
    qed
    then show ?thesis by simp
  qed
  define k where "k = nat (e - (E - 23))"
  have ek: "e = (E - 23) + int k" using Ee by (simp add: k_def)
  have au: "a / 2 powi (E - 23) = of_int (\<bar>m\<bar> * 2 ^ k)"
    by (simp add: a ek power_int_add)
  have y: "of_int (round_half_even (a / 2 powi (E - 23))) * 2 powi (E - 23) = a"
    by (simp only: au round_half_even_of_int) (simp add: a ek power_int_add)
  have "a < 2 powi 128"
  proof -
    have "(2::rat) powi (24 + e) \<le> 2 powi 128"
      using e by (intro power_int_increasing) simp_all
    with lt show ?thesis by simp
  qed
  moreover have "sgn x * a = x" by (simp add: a_def sgn_mult_abs)
  ultimately show ?thesis
    unfolding f32_round_def Let_def a_def [symmetric] E_def [symmetric] y
    by simp
qed

lemma f32_round_of_int: "\<bar>k\<bar> \<le> 2 ^ 24 \<Longrightarrow> f32_round (of_int k) = Finite (of_int k)"
proof (cases "\<bar>k\<bar> < 2 ^ 24")
  case True
  then show ?thesis by (intro f32_round_exact [where m = k and e = 0]) simp_all
next
  case False
  assume "\<bar>k\<bar> \<le> 2 ^ 24"
  with False have "k = 2 ^ 24 \<or> k = - (2 ^ 24)" by auto
  then show ?thesis
  proof
    assume "k = 2 ^ 24"
    then show ?thesis by (intro f32_round_exact [where m = 1 and e = 24]) simp_all
  next
    assume "k = - (2 ^ 24)"
    then show ?thesis by (intro f32_round_exact [where m = "-1" and e = 24]) simp_all
  qed
qed

lemma f32_round_pow2: "-149 \<le> n \<Longrightarrow> n \<le> 103 \<Longrightarrow> f32_round (2 powi n) = Finite (2 powi n)"
  by (intro f32_round_exact [where m = 1 and e = n]) simp_all

lemma f32_of_int_exact: "\<bar>k\<bar> \<le> 2 ^ 24 \<Longrightarrow> f32_of_int k = Finite (of_int k)"
  by (simp add: f32_of_int_def f32_round_of_int)

lemma pow2f_exact: "0 \<le> n \<Longrightarrow> n \<le> 103 \<Longrightarrow> pow2f n = Finite (2 ^ nat n)"
  using f32_round_pow2 [of n] by (simp add: pow2f_def power_int_def)

text \<open>
  For a grid size \<open>2 ^ n\<close> with \<open>n \<le> 24\<close>: \<open>middle\<close>, \<open>scale\<close>, the offsets
  \<open>i - middle\<close> and the loop tests are computed without rounding.
\<close>

lemma half_pow2_exact:
  assumes "n \<le> 24"
  shows "f32_div (Finite (2 ^ n)) (Finite 2) = Finite (2 ^ n / 2)"
proof -
  have "(2::rat) ^ n / 2 = 2 powi (int n - 1)"
    by (simp add: power_int_diff)
  moreover have "f32_round (2 powi (int n - 1)) = Finite (2 powi (int n - 1))"
    using assms by (intro f32_round_pow2) simp_all
  ultimately show ?thesis by simp
qed

lemma inverse_pow2_exact:
  assumes "n \<le> 24"
  shows "f32_div (Finite 1) (Finite (2 ^ n)) = Finite (1 / 2 ^ n)"
proof -
  have "1 / (2::rat) ^ n = 2 powi (- int n)"
    by (simp add: power_int_minus_divide)
  moreover have "f32_round (2 powi (- int n)) = Finite (2 powi (- int n))"
    using assms by (intro f32_round_pow2) simp_all
  ultimately show ?thesis by simp
qed

lemma offset_exact:
  assumes n: "n \<le> 24" and i: "0 \<le> i" "i < 2 ^ n"
  shows "f32_sub (f32_of_int i) (Finite (2 ^ n / 2)) = Finite (of_int i - 2 ^ n / 2)"
proof -
  have le: "(2::int) ^ n \<le> 2 ^ 24"
    using n by (intro power_increasing) simp_all
  have fi: "f32_of_int i = Finite (of_int i)"
    using i le by (intro f32_of_int_exact) simp
  have "f32_round (of_int i - 2 ^ n / 2) = Finite (of_int i - 2 ^ n / 2)"
  proof (cases n)
    case 0
    with i have "i = 0" by simp
    with 0 show ?thesis
      by (intro f32_round_exact [where m = "-1" and e = "-1"]) simp_all
  next
    case (Suc k)
    then have eq: "(of_int i :: rat) - 2 ^ n / 2 = of_int (i - 2 ^ k)" by simp
    have "\<bar>i - 2 ^ k\<bar> \<le> 2 ^ 24"
      using i le Suc by simp
    then show ?thesis
      unfolding eq by (rule f32_round_of_int)
  qed
  with fi show ?thesis by simp
qed

lemma less_count_exact:
  assumes n: "n \<le> 24" and j: "0 \<le> j" "j \<le> 2 ^ n"
  shows "f32_less (f32_of_int j) (Finite (2 ^ n)) \<longleftrightarrow> j < 2 ^ n"
proof -
  have le: "(2::int) ^ n \<le> 2 ^ 24"
    using n by (intro power_increasing) simp_all
  have "f32_of_int j = Finite (of_int j)"
    using j le by (intro f32_of_int_exact) simp
  moreover have "(of_int j :: rat) < 2 ^ n \<longleftrightarrow> j < 2 ^ n"
    by (metis of_int_less_iff of_int_numeral of_int_power)
  ultimately show ?thesis by simp
qed

subsection \<open>The loops for a grid size up to \<open>2 ^ 24\<close>\<close>

text \<open>
  From column \<open>j\<close> on, the inner loop appends the nodes of columns \<open>j\<close> to \<open>2 ^ n - 1\<close>
  of row \<open>i\<close>; from row \<open>i\<close> on, the outer loop appends the rows \<open>i\<close> to \<open>2 ^ n - 1\<close>.
  Both inductions are on the number of iterations left.
\<close>

lemma inner_loop_exact:
  assumes n: "n \<le> 24" and i: "0 \<le> i" "i < 2 ^ n" and j: "0 \<le> j" "j \<le> 2 ^ n"
  shows "inner_loop (Finite (2 ^ n)) (Finite (2 ^ n / 2)) (Finite (1 / 2 ^ n)) m i j acc =
         Some (acc @ map (grid_node (2 ^ n) m i) [j..2 ^ n - 1])"
  using j
proof (induction "nat (2 ^ n - j)" arbitrary: j acc)
  case 0
  then have eq: "j = 2 ^ n" by simp
  then have "\<not> f32_less (f32_of_int j) (Finite (2 ^ n))"
    using less_count_exact [OF n, of j] by simp
  then show ?case
    by (subst inner_loop.simps) (simp add: eq)
next
  case (Suc k)
  then have lt: "j < 2 ^ n" by simp
  have le: "(2::int) ^ n \<le> 2 ^ 24"
    using n by (intro power_increasing) simp_all
  have nomax: "\<not> INT_MAX \<le> j"
    using lt le by (simp add: INT_MAX_def)
  have test: "f32_less (f32_of_int j) (Finite (2 ^ n))"
    using less_count_exact [OF n, of j] Suc.prems lt by simp
  have IH: "inner_loop (Finite (2 ^ n)) (Finite (2 ^ n / 2)) (Finite (1 / 2 ^ n)) m i (j + 1) acc' =
         Some (acc' @ map (grid_node (2 ^ n) m i) [j + 1..2 ^ n - 1])" for acc'
    using Suc.hyps(1) [of "j + 1" acc'] Suc.hyps(2) Suc.prems lt by simp
  have up: "[j..2 ^ n - 1] = j # [j + 1..2 ^ n - 1]"
    using lt by (simp add: upto_rec1)
  show ?case
    using test nomax offset_exact [OF n i] offset_exact [OF n Suc.prems(1) lt]
    by (simp add: inner_loop.simps [of _ _ _ _ _ j] IH up grid_node_def)
qed

lemma outer_loop_exact:
  assumes n: "n \<le> 24" and i: "0 \<le> i" "i \<le> 2 ^ n"
  shows "outer_loop (Finite (2 ^ n)) (Finite (2 ^ n / 2)) (Finite (1 / 2 ^ n)) m i acc =
         Some (acc @ concat (map (\<lambda>i. map (grid_node (2 ^ n) m i) [0..2 ^ n - 1]) [i..2 ^ n - 1]))"
  using i
proof (induction "nat (2 ^ n - i)" arbitrary: i acc)
  case 0
  then have eq: "i = 2 ^ n" by simp
  then have "\<not> f32_less (f32_of_int i) (Finite (2 ^ n))"
    using less_count_exact [OF n, of i] by simp
  then show ?case
    by (subst outer_loop.simps) (simp add: eq)
next
  case (Suc k)
  then have lt: "i < 2 ^ n" by simp
  have le: "(2::int) ^ n \<le> 2 ^ 24"
    using n by (intro power_increasing) simp_all
  have nomax: "\<not> INT_MAX \<le> i"
    using lt le by (simp add: INT_MAX_def)
  have test: "f32_less (f32_of_int i) (Finite (2 ^ n))"
    using less_count_exact [OF n, of i] Suc.prems lt by simp
  have IH: "outer_loop (Finite (2 ^ n)) (Finite (2 ^ n / 2)) (Finite (1 / 2 ^ n)) m (i + 1) acc' =
         Some (acc' @ concat (map (\<lambda>i. map (grid_node (2 ^ n) m i) [0..2 ^ n - 1]) [i + 1..2 ^ n - 1]))" for acc'
    using Suc.hyps(1) [of "i + 1" acc'] Suc.hyps(2) Suc.prems lt by simp
  have up: "[i..2 ^ n - 1] = i # [i + 1..2 ^ n - 1]"
    using lt by (simp add: upto_rec1)
  have inner: "inner_loop (Finite (2 ^ n)) (Finite (2 ^ n / 2)) (Finite (1 / 2 ^ n)) m i 0 acc =
         Some (acc @ map (grid_node (2 ^ n) m i) [0..2 ^ n - 1])"
    using n Suc.prems(1) lt by (intro inner_loop_exact) simp_all
  show ?case
    using test nomax
    by (simp add: outer_loop.simps [of _ _ _ _ i] inner IH up)
qed

subsection \<open>The paths through setUp\<close>

text \<open>
  The three early returns, and what \<^verbatim>\<open>setUp\<close> is once the texture exists: the result of
  the loops, if they return.
\<close>

lemma setUp_base_fails:
  "\<not> base_setUp_result ext r \<Longrightarrow>
   setUp ext r = Some (False, r\<lparr>super := base_after_setUp ext r\<rparr>, [Call_Renderer_setUp])"
  by (simp add: setUp_def base_setUp_result_def base_after_setUp_def split_beta Let_def)

lemma setUp_program_fails:
  "base_setUp_result ext r \<Longrightarrow> createProgram_result ext = 0 \<Longrightarrow>
   setUp ext r = Some (False, r\<lparr>super := base_after_setUp ext r\<rparr>,
     [Call_Renderer_setUp, Call_createProgram FP_VERTEX FP_FRAGMENT])"
  by (simp add: setUp_def base_setUp_result_def base_after_setUp_def createProgram_result_def
      split_beta Let_def)

lemma setUp_texture_fails:
  "base_setUp_result ext r \<Longrightarrow> createProgram_result ext \<noteq> 0 \<Longrightarrow> genRandTex_result ext r = 0 \<Longrightarrow>
   setUp ext r = Some (False, setUp_prepared ext r, setUp_calls ext r)"
  by (simp add: setUp_def base_setUp_result_def base_after_setUp_def createProgram_result_def
      genRandTex_result_def setUp_prepared_def setUp_calls_def split_beta Let_def)

lemma setUp_reaches_loops:
  "base_setUp_result ext r \<Longrightarrow> createProgram_result ext \<noteq> 0 \<Longrightarrow> genRandTex_result ext r \<noteq> 0 \<Longrightarrow>
   setUp ext r =
     (if workload ext r - 1 < INT_MIN then None
      else case outer_loop (pow2f (workload ext r - 1))
                  (f32_div (pow2f (workload ext r - 1)) (Finite 2))
                  (f32_div (Finite 1) (pow2f (workload ext r - 1)))
                  (quad_mesh ext r) 0 [] of
             None \<Rightarrow> None
           | Some children \<Rightarrow>
               Some (True,
                 (setUp_prepared ext r)\<lparr>mMesh := Some (quad_mesh ext r),
                                          mSceneGraph := Some (ProgramNode children)\<rparr>,
                 setUp_calls ext r))"
  by (simp add: setUp_def base_setUp_result_def base_after_setUp_def createProgram_result_def
      genRandTex_result_def setUp_prepared_def setUp_calls_def workload_def quad_mesh_def
      split_beta Let_def split: option.split)





lemma setUp_grid_exact:
  assumes ok: "base_setUp_result ext r" "createProgram_result ext \<noteq> 0" "genRandTex_result ext r \<noteq> 0"
    and w: "1 \<le> workload ext r" "workload ext r \<le> 25"
  shows "setUp ext r =
     Some (True,
       (setUp_prepared ext r)\<lparr>mMesh := Some (quad_mesh ext r),
         mSceneGraph := Some (ProgramNode (grid (2 ^ nat (workload ext r - 1)) (quad_mesh ext r)))\<rparr>,
       setUp_calls ext r)"
proof -
  define n where "n = nat (workload ext r - 1)"
  have n: "n \<le> 24" and wn: "workload ext r - 1 = int n"
    using w by (simp_all add: n_def)
  have count: "pow2f (workload ext r - 1) = Finite (2 ^ n)"
    using n by (simp add: wn pow2f_exact)
  have loops: "outer_loop (Finite (2 ^ n)) (Finite (2 ^ n / 2)) (Finite (1 / 2 ^ n))
                 (quad_mesh ext r) 0 [] = Some (grid (2 ^ n) (quad_mesh ext r))"
    using outer_loop_exact [OF n, of 0 "quad_mesh ext r" "[]"] by (simp add: grid_def)
  have "\<not> workload ext r - 1 < INT_MIN"
    using w by (simp add: INT_MIN_def)
  then show ?thesis
    unfolding setUp_reaches_loops [OF ok] count half_pow2_exact [OF n] inverse_pow2_exact [OF n]
      loops n_def [symmetric]
    by simp
qed

subsection \<open>Grid sizes from \<open>2 ^ 25\<close> on\<close>








subsection \<open>draw and tearDown\<close>

text \<open>
  A frame of a live renderer, by cases on the error code and on \<open>offscreen\<close>; and
  \<^verbatim>\<open>tearDown\<close>, by cases on what \<^verbatim>\<open>Renderer::tearDown\<close> returns.
\<close>

lemma draw_live:
  assumes "live r"
  shows "draw ext r offscreen =
     Some (if glGetError ext \<noteq> GL_NO_ERROR
           then (False, after_frame r,
                 frame_calls r offscreen @ [Call_glGetError, Call_ALOGV_GLError (glGetError ext)])
           else if offscreen
           then (True, after_frame r, frame_calls r offscreen @ [Call_glGetError, Call_glFinish])
           else (eglSwapBuffers ext (mEglDisplay (super r)) (mEglSurface (super r)) \<noteq> 0,
                 after_frame r,
                 frame_calls r offscreen @
                   [Call_glGetError,
                    Call_eglSwapBuffers (mEglDisplay (super r)) (mEglSurface (super r))]))"
  using assms
  by (auto simp add: live_def draw_def frame_calls_def after_frame_def Let_def)

lemma draw_not_live: "\<not> live r \<Longrightarrow> draw ext r offscreen = None"
  by (auto simp add: live_def draw_def split: option.split)

lemma tearDown_base_fails:
  assumes "\<not> fst (Renderer_tearDown ext (super r))"
  shows "tearDown ext r =
     (False, r\<lparr>mTextureId := 0, super := snd (Renderer_tearDown ext (super r))\<rparr>,
      (if mTextureId r \<noteq> 0 then [Call_glDeleteTextures (mTextureId r)] else []) @
      [Call_Renderer_tearDown])"
  using assms by (simp add: tearDown_def split_beta Let_def)

lemma tearDown_base_ok:
  assumes "fst (Renderer_tearDown ext (super r))"
  shows "tearDown ext r =
     (True,
      r\<lparr>mTextureId := 0, super := snd (Renderer_tearDown ext (super r)),
        mModelMatrix := None, mViewMatrix := None, mProjectionMatrix := None,
        mProgram := None, mSceneGraph := None, mMesh := None\<rparr>,
      (if mTextureId r \<noteq> 0 then [Call_glDeleteTextures (mTextureId r)] else []) @
      [Call_Renderer_tearDown,
       Call_delete_matrix (mModelMatrix r), Call_delete_matrix (mViewMatrix r),
       Call_delete_matrix (mProjectionMatrix r), Call_delete_program (mProgram r),
       Call_delete_node (mSceneGraph r), Call_delete_mesh (mMesh r)])"
  using assms by (simp add: tearDown_def split_beta Let_def)

lemma live_example: "live example_live"
  by (simp add: live_def example_live_def)

subsection \<open>Workload 0\<close>

text \<open>
  \<open>count = 1 / 2\<close>, \<open>middle = 1 / 4\<close> and \<open>scale = 2\<close> are exact; each loop runs for the
  counter 0 and stops at 1.
\<close>

lemma setUp_zero:
  assumes ok: "base_setUp_result ext r" "createProgram_result ext \<noteq> 0" "genRandTex_result ext r \<noteq> 0"
    and w: "workload ext r = 0"
  shows "setUp ext r =
     Some (True,
       (setUp_prepared ext r)\<lparr>mMesh := Some (quad_mesh ext r),
         mSceneGraph := Some (ProgramNode
           [TransformationNode
              (Matrix_translate (Matrix_newScale (Finite 2) (Finite 2) (Finite 2))
                 (Finite (- (1 / 4))) (Finite (- (1 / 4))) (Finite 0))
              [FullPipelineMesh (quad_mesh ext r)]])\<rparr>,
       setUp_calls ext r)"
proof -
  have count: "pow2f (- 1) = Finite (1 / 2)"
    using f32_round_pow2 [of "- 1"] by (simp add: pow2f_def)
  have middle: "f32_round (1 / 4) = Finite (1 / 4)"
    using f32_round_pow2 [of "- 2"] by (simp add: power_int_minus)
  have scale: "f32_round 2 = Finite 2"
    using f32_round_pow2 [of 1] by simp
  have zero: "f32_of_int 0 = Finite 0" and one: "f32_of_int 1 = Finite 1"
    using f32_of_int_exact [of 0] f32_of_int_exact [of 1] by simp_all
  have "(- (1 / 4) :: rat) = of_int (- 1) * 2 powi (- 2)"
    by (simp add: power_int_minus)
  then have off: "f32_round (- (1 / 4)) = Finite (- (1 / 4))"
    by (rule f32_round_exact) simp_all
  have inner1: "inner_loop (Finite (1 / 2)) (Finite (1 / 4)) (Finite 2) m 0 1 acc = Some acc" for m acc
    by (subst inner_loop.simps) (simp add: one)
  have inner0: "inner_loop (Finite (1 / 2)) (Finite (1 / 4)) (Finite 2) m 0 0 [] =
      Some [TransformationNode
              (Matrix_translate (Matrix_newScale (Finite 2) (Finite 2) (Finite 2))
                 (Finite (- (1 / 4))) (Finite (- (1 / 4))) (Finite 0))
              [FullPipelineMesh m]]" for m
    by (subst inner_loop.simps) (simp add: zero off inner1 INT_MAX_def)
  have outer1: "outer_loop (Finite (1 / 2)) (Finite (1 / 4)) (Finite 2) m 1 acc = Some acc" for m acc
    by (subst outer_loop.simps) (simp add: one)
  have outer0: "outer_loop (Finite (1 / 2)) (Finite (1 / 4)) (Finite 2) m 0 [] =
      Some [TransformationNode
              (Matrix_translate (Matrix_newScale (Finite 2) (Finite 2) (Finite 2))
                 (Finite (- (1 / 4))) (Finite (- (1 / 4))) (Finite 0))
              [FullPipelineMesh m]]" for m
    by (subst outer_loop.simps) (simp add: zero inner0 outer1 INT_MAX_def)
  show ?thesis
    unfolding setUp_reaches_loops [OF ok] w
    by (simp add: count middle scale outer0 INT_MIN_def)
qed

section \<open>The claims\<close>

subsection \<open>C1: the grid that setUp builds\<close>



subsection \<open>C2: setUp fails when the program or the texture cannot be created\<close>

text \<open>
  C2. \<^verbatim>\<open>setUp\<close> returns \<open>false\<close> whenever \<^verbatim>\<open>GLUtils::createProgram\<close> answers 0 or
  \<^verbatim>\<open>GLUtils::genRandTex\<close> answers 0, and it returns \<open>true\<close> only when
  \<^verbatim>\<open>Renderer::setUp\<close> succeeded and both answers are non-zero.
\<close>

theorem setUp_false_on_program_or_texture_failure:
  "(createProgram_result ext = 0 \<or> genRandTex_result ext r = 0 \<longrightarrow>
      returned (setUp ext r) = Some False) \<and>
   (returned (setUp ext r) = Some True \<longrightarrow>
      base_setUp_result ext r \<and> createProgram_result ext \<noteq> 0 \<and> genRandTex_result ext r \<noteq> 0)"
proof -
  have failing: "returned (setUp ext r) = Some False"
    if "\<not> base_setUp_result ext r \<or> createProgram_result ext = 0 \<or> genRandTex_result ext r = 0"
  proof (cases "base_setUp_result ext r")
    case False
    then show ?thesis by (simp add: setUp_base_fails returned_def)
  next
    case base: True
    show ?thesis
    proof (cases "createProgram_result ext = 0")
      case True
      with base show ?thesis by (simp add: setUp_program_fails returned_def)
    next
      case False
      with base that have "genRandTex_result ext r = 0" by simp
      with base False show ?thesis by (simp add: setUp_texture_fails returned_def)
    qed
  qed
  have "base_setUp_result ext r \<and> createProgram_result ext \<noteq> 0 \<and> genRandTex_result ext r \<noteq> 0"
    if true: "returned (setUp ext r) = Some True"
  proof (rule ccontr)
    assume "\<not> (base_setUp_result ext r \<and> createProgram_result ext \<noteq> 0 \<and>
      genRandTex_result ext r \<noteq> 0)"
    then have "returned (setUp ext r) = Some False"
      by (intro failing) blast
    with true show False by simp
  qed
  with failing show ?thesis by blast
qed

text \<open>
  C2, witness: on the example surface with workload 1, \<^verbatim>\<open>setUp\<close> returns \<open>false\<close> when
  the program id is 0, \<open>false\<close> when the texture id is 0, and \<open>true\<close> when both are
  non-zero.
\<close>

theorem setUp_false_on_program_or_texture_failure_witness:
  "createProgram_result (example_externals\<lparr>GLUtils_createProgram := (\<lambda>v f. 0)\<rparr>) = 0 \<and>
   returned (setUp (example_externals\<lparr>GLUtils_createProgram := (\<lambda>v f. 0)\<rparr>)
     (new_FullPipelineRenderer (example_base 1) 0)) = Some False \<and>
   genRandTex_result (example_externals\<lparr>GLUtils_genRandTex := (\<lambda>w h. 0)\<rparr>)
     (new_FullPipelineRenderer (example_base 1) 0) = 0 \<and>
   returned (setUp (example_externals\<lparr>GLUtils_genRandTex := (\<lambda>w h. 0)\<rparr>)
     (new_FullPipelineRenderer (example_base 1) 0)) = Some False \<and>
   returned (setUp example_externals (new_FullPipelineRenderer (example_base 1) 0)) = Some True \<and>
   base_setUp_result example_externals (new_FullPipelineRenderer (example_base 1) 0) \<and>
   createProgram_result example_externals \<noteq> 0 \<and>
   genRandTex_result example_externals (new_FullPipelineRenderer (example_base 1) 0) \<noteq> 0"
proof -
  let ?r = "new_FullPipelineRenderer (example_base 1) 0"
  let ?noprog = "example_externals\<lparr>GLUtils_createProgram := (\<lambda>v f. 0)\<rparr>"
  let ?notex = "example_externals\<lparr>GLUtils_genRandTex := (\<lambda>w h. 0)\<rparr>"
  have p: "createProgram_result ?noprog = 0"
    by (simp add: createProgram_result_def)
  have t: "genRandTex_result ?notex ?r = 0"
    by (simp add: genRandTex_result_def)
  have ok: "base_setUp_result example_externals ?r" "createProgram_result example_externals \<noteq> 0"
    "genRandTex_result example_externals ?r \<noteq> 0"
    by (simp_all add: base_setUp_result_def createProgram_result_def genRandTex_result_def
        base_after_setUp_def example_externals_def)
  have w: "workload example_externals ?r = 1"
    by (simp add: workload_def base_after_setUp_def example_externals_def
        new_FullPipelineRenderer_def example_base_def)
  have "returned (setUp example_externals ?r) = Some True"
    using setUp_grid_exact [OF ok] w by (simp add: returned_def)
  moreover have "returned (setUp ?noprog ?r) = Some False"
    using setUp_false_on_program_or_texture_failure [of ?noprog ?r] p by simp
  moreover have "returned (setUp ?notex ?r) = Some False"
    using setUp_false_on_program_or_texture_failure [of ?notex ?r] t by simp
  ultimately show ?thesis
    using p t ok by simp
qed

subsection \<open>C3: a GL error fails the frame before it is finished or presented\<close>

text \<open>
  C3. For every call of \<^verbatim>\<open>draw\<close> on a live renderer, with either value of \<open>offscreen\<close>:
  if \<^verbatim>\<open>glGetError\<close> after the traversal of the scene graph reports a code other than
  \<^verbatim>\<open>GL_NO_ERROR\<close>, then \<^verbatim>\<open>draw\<close> returns \<open>false\<close>, and neither \<^verbatim>\<open>glFinish\<close> nor
  \<^verbatim>\<open>eglSwapBuffers\<close> is among the calls of that frame.
\<close>

theorem draw_fails_on_gl_error:
  assumes "live r" and "glGetError ext \<noteq> GL_NO_ERROR"
  shows "returned (draw ext r offscreen) = Some False \<and>
    Call_glGetError \<in> set (calls_of (draw ext r offscreen)) \<and>
    Call_glFinish \<notin> set (calls_of (draw ext r offscreen)) \<and>
    (\<forall>d s. Call_eglSwapBuffers d s \<notin> set (calls_of (draw ext r offscreen)))"
  using assms
  by (auto simp add: draw_live returned_def calls_of_def frame_calls_def)

text \<open>
  C3, witness: the example renderer, offscreen, with \<^verbatim>\<open>glGetError\<close> reporting
  \<^verbatim>\<open>GL_INVALID_VALUE\<close> (1281).
\<close>

theorem draw_fails_on_gl_error_witness:
  "live example_live \<and>
   glGetError (example_externals\<lparr>glGetError := 1281\<rparr>) \<noteq> GL_NO_ERROR \<and>
   returned (draw (example_externals\<lparr>glGetError := 1281\<rparr>) example_live True) = Some False \<and>
   Call_glFinish \<notin> set (calls_of (draw (example_externals\<lparr>glGetError := 1281\<rparr>) example_live True))"
proof -
  have e: "glGetError (example_externals\<lparr>glGetError := 1281\<rparr>) \<noteq> GL_NO_ERROR"
    by (simp add: GL_NO_ERROR_def)
  show ?thesis
    using draw_fails_on_gl_error [OF live_example e, of True] live_example e by simp
qed

subsection \<open>C4: a frame without error is finished or presented\<close>

text \<open>
  C4. When \<^verbatim>\<open>glGetError\<close> reports \<^verbatim>\<open>GL_NO_ERROR\<close> on a live renderer:
  \<^verbatim>\<open>draw(true)\<close> calls \<^verbatim>\<open>glFinish\<close> after the error check, does not swap buffers, and
  returns \<open>true\<close>; \<^verbatim>\<open>draw(false)\<close> calls \<^verbatim>\<open>eglSwapBuffers\<close> on the renderer's display and
  surface after the error check, does not call \<^verbatim>\<open>glFinish\<close>, and returns the result of
  that call (the \<^verbatim>\<open>EGLBoolean\<close> as a \<^verbatim>\<open>bool\<close>).
\<close>

theorem draw_finishes_or_swaps:
  assumes "live r" and "glGetError ext = GL_NO_ERROR"
  shows "returned (draw ext r True) = Some True \<and>
    calls_of (draw ext r True) = frame_calls r True @ [Call_glGetError, Call_glFinish] \<and>
    returned (draw ext r False) =
      Some (eglSwapBuffers ext (mEglDisplay (super r)) (mEglSurface (super r)) \<noteq> 0) \<and>
    calls_of (draw ext r False) =
      frame_calls r False @
      [Call_glGetError, Call_eglSwapBuffers (mEglDisplay (super r)) (mEglSurface (super r))] \<and>
    (\<forall>d s. Call_eglSwapBuffers d s \<notin> set (frame_calls r True)) \<and>
    Call_glFinish \<notin> set (frame_calls r False)"
  using assms
  by (auto simp add: draw_live returned_def calls_of_def frame_calls_def)

text \<open>
  C4, witness: the example renderer and outside code: offscreen the frame ends with
  \<^verbatim>\<open>glFinish\<close> and returns \<open>true\<close>; onscreen it ends with \<^verbatim>\<open>eglSwapBuffers\<close> on display
  1 and surface 2, which answers \<^verbatim>\<open>EGL_TRUE\<close>.
\<close>

theorem draw_finishes_or_swaps_witness:
  "live example_live \<and> glGetError example_externals = GL_NO_ERROR \<and>
   returned (draw example_externals example_live True) = Some True \<and>
   last (calls_of (draw example_externals example_live True)) = Call_glFinish \<and>
   returned (draw example_externals example_live False) = Some True \<and>
   last (calls_of (draw example_externals example_live False)) = Call_eglSwapBuffers 1 2"
proof -
  have e: "glGetError example_externals = GL_NO_ERROR"
    by (simp add: GL_NO_ERROR_def example_externals_def)
  have "eglSwapBuffers example_externals (mEglDisplay (super example_live))
          (mEglSurface (super example_live)) = 1"
    "mEglDisplay (super example_live) = 1" "mEglSurface (super example_live) = 2"
    by (simp_all add: example_externals_def example_live_def example_base_def)
  then show ?thesis
    using draw_finishes_or_swaps [OF live_example e] live_example e by simp
qed

subsection \<open>C5: the order of the calls of a frame\<close>

text \<open>
  C5. Every call of \<^verbatim>\<open>draw\<close> on a live renderer makes these calls first, in this order:
  it binds the framebuffer (\<^verbatim>\<open>mFboId\<close> when \<open>offscreen\<close>, 0 otherwise), sets the clear
  colour, enables face culling and depth testing, clears the depth and colour buffers,
  resets the model matrix to the identity, and draws the scene graph with the program
  and the model, view and projection matrices; only then comes the error check. The
  model matrix of the renderer is the identity afterwards.
\<close>

theorem draw_call_order:
  assumes "mModelMatrix r = Some model" and "mSceneGraph r = Some sceneGraph"
    and "mProgram r = Some program" and "mViewMatrix r = Some view"
    and "mProjectionMatrix r = Some projection"
  shows "\<exists>result rest.
    draw ext r offscreen =
      Some (result, r\<lparr>mModelMatrix := Some (Matrix_identity model)\<rparr>,
        [Call_glBindFramebuffer GL_FRAMEBUFFER (if offscreen then mFboId (super r) else 0),
         Call_glClearColor (Finite 0) (Finite 0) (Finite 0) (Finite 0),
         Call_glEnable GL_CULL_FACE,
         Call_glEnable GL_DEPTH_TEST,
         Call_glClear {GL_DEPTH_BUFFER_BIT, GL_COLOR_BUFFER_BIT},
         Call_Matrix_identity,
         Call_SceneGraph_draw sceneGraph program (Matrix_identity model) view projection,
         Call_glGetError] @ rest)"
proof -
  have "live r" using assms by (simp add: live_def)
  then show ?thesis
    using assms by (auto simp add: draw_live frame_calls_def after_frame_def)
qed

text \<open>
  C5, witness: the example renderer drawn offscreen binds framebuffer 7, and the eight
  calls above are the first eight of the frame.
\<close>

theorem draw_call_order_witness:
  "mModelMatrix example_live = Some Matrix_new \<and>
   take 8 (calls_of (draw example_externals example_live True)) =
     [Call_glBindFramebuffer GL_FRAMEBUFFER 7,
      Call_glClearColor (Finite 0) (Finite 0) (Finite 0) (Finite 0),
      Call_glEnable GL_CULL_FACE,
      Call_glEnable GL_DEPTH_TEST,
      Call_glClear {GL_DEPTH_BUFFER_BIT, GL_COLOR_BUFFER_BIT},
      Call_Matrix_identity,
      Call_SceneGraph_draw (the (mSceneGraph example_live)) (FullPipelineProgram 3)
        (Matrix_identity Matrix_new) (the (mViewMatrix example_live))
        (the (mProjectionMatrix example_live)),
      Call_glGetError]"
proof -
  have fields: "mModelMatrix example_live = Some Matrix_new"
    "mSceneGraph example_live = Some (the (mSceneGraph example_live))"
    "mProgram example_live = Some (FullPipelineProgram 3)"
    "mViewMatrix example_live = Some (the (mViewMatrix example_live))"
    "mProjectionMatrix example_live = Some (the (mProjectionMatrix example_live))"
    "mFboId (super example_live) = 7"
    by (simp_all add: example_live_def example_base_def)
  from draw_call_order [OF fields(1-5), of example_externals True]
  obtain result rest where
    "draw example_externals example_live True =
      Some (result, example_live\<lparr>mModelMatrix := Some (Matrix_identity Matrix_new)\<rparr>,
        [Call_glBindFramebuffer GL_FRAMEBUFFER (if True then mFboId (super example_live) else 0),
         Call_glClearColor (Finite 0) (Finite 0) (Finite 0) (Finite 0),
         Call_glEnable GL_CULL_FACE,
         Call_glEnable GL_DEPTH_TEST,
         Call_glClear {GL_DEPTH_BUFFER_BIT, GL_COLOR_BUFFER_BIT},
         Call_Matrix_identity,
         Call_SceneGraph_draw (the (mSceneGraph example_live)) (FullPipelineProgram 3)
           (Matrix_identity Matrix_new) (the (mViewMatrix example_live))
           (the (mProjectionMatrix example_live)),
         Call_glGetError] @ rest)"
    by blast
  then show ?thesis
    using fields(1,6) by (simp add: calls_of_def)
qed

subsection \<open>C6: what tearDown destroys\<close>

text \<open>
  C6, as the code has it. Every call of \<^verbatim>\<open>tearDown\<close> leaves the texture handle 0, and
  has deleted the texture first when the handle was not 0. When \<^verbatim>\<open>Renderer::tearDown\<close>
  returns \<open>true\<close>, \<^verbatim>\<open>tearDown\<close> returns \<open>true\<close>, and the model, view and projection
  matrices, the program, the scene graph and the mesh are each deleted, in this order,
  and their pointers set to \<^verbatim>\<open>NULL\<close>.
\<close>

theorem tearDown_destroys_when_base_succeeds:
  assumes "tearDown ext r = (ok, r', calls)"
  shows "mTextureId r' = 0 \<and>
    deleted_textures calls = (if mTextureId r \<noteq> 0 then [mTextureId r] else []) \<and>
    (fst (Renderer_tearDown ext (super r)) \<longrightarrow>
       ok \<and>
       mModelMatrix r' = None \<and> mViewMatrix r' = None \<and> mProjectionMatrix r' = None \<and>
       mProgram r' = None \<and> mSceneGraph r' = None \<and> mMesh r' = None \<and>
       dropWhile (\<lambda>c. c \<noteq> Call_Renderer_tearDown) calls =
         [Call_Renderer_tearDown,
          Call_delete_matrix (mModelMatrix r), Call_delete_matrix (mViewMatrix r),
          Call_delete_matrix (mProjectionMatrix r), Call_delete_program (mProgram r),
          Call_delete_node (mSceneGraph r), Call_delete_mesh (mMesh r)])"
proof (cases "fst (Renderer_tearDown ext (super r))")
  case True
  from assms show ?thesis
    unfolding tearDown_base_ok [OF True] using True by auto
next
  case False
  from assms show ?thesis
    unfolding tearDown_base_fails [OF False] using False by auto
qed

text \<open>
  C6, witness: tearing down the example renderer, whose texture is 5, with a
  \<^verbatim>\<open>Renderer::tearDown\<close> that succeeds.
\<close>

theorem tearDown_destroys_when_base_succeeds_witness:
  "fst (Renderer_tearDown example_externals (super example_live)) \<and>
   fst (tearDown example_externals example_live) \<and>
   mTextureId (fst (snd (tearDown example_externals example_live))) = 0 \<and>
   deleted_textures (snd (snd (tearDown example_externals example_live))) = [5] \<and>
   mModelMatrix (fst (snd (tearDown example_externals example_live))) = None \<and>
   mViewMatrix (fst (snd (tearDown example_externals example_live))) = None \<and>
   mProjectionMatrix (fst (snd (tearDown example_externals example_live))) = None \<and>
   mProgram (fst (snd (tearDown example_externals example_live))) = None \<and>
   mSceneGraph (fst (snd (tearDown example_externals example_live))) = None \<and>
   mMesh (fst (snd (tearDown example_externals example_live))) = None"
proof -
  have b: "fst (Renderer_tearDown example_externals (super example_live))"
    by (simp add: example_externals_def)
  have t: "mTextureId example_live = 5"
    by (simp add: example_live_def)
  show ?thesis
    using tearDown_destroys_when_base_succeeds
      [of example_externals example_live "fst (tearDown example_externals example_live)"
        "fst (snd (tearDown example_externals example_live))"
        "snd (snd (tearDown example_externals example_live))"]
      b t
    by simp
qed

text \<open>
  C6, counterexample: with a \<^verbatim>\<open>Renderer::tearDown\<close> that returns \<open>false\<close>, \<^verbatim>\<open>tearDown\<close>
  of the example renderer returns \<open>false\<close> after deleting only the texture: the three
  matrices, the program, the scene graph and the mesh are neither deleted nor set to
  \<^verbatim>\<open>NULL\<close>.
\<close>

theorem tearDown_keeps_objects_counterexample:
  "\<not> fst (tearDown (example_externals\<lparr>Renderer_tearDown := (\<lambda>b. (False, b))\<rparr>) example_live) \<and>
   snd (snd (tearDown (example_externals\<lparr>Renderer_tearDown := (\<lambda>b. (False, b))\<rparr>) example_live)) =
     [Call_glDeleteTextures 5, Call_Renderer_tearDown] \<and>
   mModelMatrix (fst (snd (tearDown (example_externals\<lparr>Renderer_tearDown := (\<lambda>b. (False, b))\<rparr>)
     example_live))) \<noteq> None \<and>
   mViewMatrix (fst (snd (tearDown (example_externals\<lparr>Renderer_tearDown := (\<lambda>b. (False, b))\<rparr>)
     example_live))) \<noteq> None \<and>
   mProjectionMatrix (fst (snd (tearDown (example_externals\<lparr>Renderer_tearDown := (\<lambda>b. (False, b))\<rparr>)
     example_live))) \<noteq> None \<and>
   mProgram (fst (snd (tearDown (example_externals\<lparr>Renderer_tearDown := (\<lambda>b. (False, b))\<rparr>)
     example_live))) \<noteq> None \<and>
   mSceneGraph (fst (snd (tearDown (example_externals\<lparr>Renderer_tearDown := (\<lambda>b. (False, b))\<rparr>)
     example_live))) \<noteq> None \<and>
   mMesh (fst (snd (tearDown (example_externals\<lparr>Renderer_tearDown := (\<lambda>b. (False, b))\<rparr>)
     example_live))) \<noteq> None"
proof -
  have "\<not> fst (Renderer_tearDown (example_externals\<lparr>Renderer_tearDown := (\<lambda>b. (False, b))\<rparr>)
    (super example_live))"
    by simp
  then show ?thesis
    unfolding tearDown_base_fails [OF \<open>\<not> fst _\<close>]
    by (simp add: example_live_def)
qed

subsection \<open>C7: failures of the base class and GL errors come back as booleans\<close>

text \<open>
  C7. When \<^verbatim>\<open>Renderer::setUp\<close> returns \<open>false\<close>, \<^verbatim>\<open>setUp\<close> returns \<open>false\<close> at once: it
  makes no other outside call and changes no field of its own. When
  \<^verbatim>\<open>Renderer::tearDown\<close> returns \<open>false\<close>, \<^verbatim>\<open>tearDown\<close> returns \<open>false\<close>. On a live
  renderer, whatever code other than \<^verbatim>\<open>GL_NO_ERROR\<close> \<^verbatim>\<open>glGetError\<close> reports, \<^verbatim>\<open>draw\<close>
  logs that code as its last call and returns \<open>false\<close>.
\<close>

theorem base_failures_and_gl_errors_propagate:
  "(\<not> base_setUp_result ext r \<longrightarrow>
      setUp ext r = Some (False, r\<lparr>super := base_after_setUp ext r\<rparr>, [Call_Renderer_setUp])) \<and>
   (\<not> fst (Renderer_tearDown ext (super r)) \<longrightarrow> \<not> fst (tearDown ext r)) \<and>
   (live r \<and> glGetError ext \<noteq> GL_NO_ERROR \<longrightarrow>
      returned (draw ext r offscreen) = Some False \<and>
      last (calls_of (draw ext r offscreen)) = Call_ALOGV_GLError (glGetError ext))"
proof -
  have "setUp ext r = Some (False, r\<lparr>super := base_after_setUp ext r\<rparr>, [Call_Renderer_setUp])"
    if "\<not> base_setUp_result ext r"
    using that by (rule setUp_base_fails)
  moreover have "\<not> fst (tearDown ext r)" if "\<not> fst (Renderer_tearDown ext (super r))"
    by (simp add: tearDown_base_fails [OF that])
  moreover have "returned (draw ext r offscreen) = Some False \<and>
      last (calls_of (draw ext r offscreen)) = Call_ALOGV_GLError (glGetError ext)"
    if "live r \<and> glGetError ext \<noteq> GL_NO_ERROR"
    using that by (simp add: draw_live returned_def calls_of_def)
  ultimately show ?thesis by blast
qed

text \<open>
  C7, witness: a failing \<^verbatim>\<open>Renderer::setUp\<close> on a new renderer, a failing
  \<^verbatim>\<open>Renderer::tearDown\<close> on the example renderer, and a frame of the example renderer
  with \<^verbatim>\<open>GL_OUT_OF_MEMORY\<close> (1285).
\<close>

theorem base_failures_and_gl_errors_propagate_witness:
  "\<not> base_setUp_result (example_externals\<lparr>Renderer_setUp := (\<lambda>b. (False, b))\<rparr>)
       (new_FullPipelineRenderer (example_base 1) 0) \<and>
   setUp (example_externals\<lparr>Renderer_setUp := (\<lambda>b. (False, b))\<rparr>)
       (new_FullPipelineRenderer (example_base 1) 0) =
     Some (False, new_FullPipelineRenderer (example_base 1) 0, [Call_Renderer_setUp]) \<and>
   \<not> fst (Renderer_tearDown (example_externals\<lparr>Renderer_tearDown := (\<lambda>b. (False, b))\<rparr>)
       (super example_live)) \<and>
   \<not> fst (tearDown (example_externals\<lparr>Renderer_tearDown := (\<lambda>b. (False, b))\<rparr>) example_live) \<and>
   live example_live \<and>
   glGetError (example_externals\<lparr>glGetError := 1285\<rparr>) \<noteq> GL_NO_ERROR \<and>
   returned (draw (example_externals\<lparr>glGetError := 1285\<rparr>) example_live False) = Some False \<and>
   last (calls_of (draw (example_externals\<lparr>glGetError := 1285\<rparr>) example_live False)) =
     Call_ALOGV_GLError 1285"
proof -
  let ?r = "new_FullPipelineRenderer (example_base 1) 0"
  let ?nosetup = "example_externals\<lparr>Renderer_setUp := (\<lambda>b. (False, b))\<rparr>"
  let ?noteardown = "example_externals\<lparr>Renderer_tearDown := (\<lambda>b. (False, b))\<rparr>"
  let ?glerror = "example_externals\<lparr>glGetError := 1285\<rparr>"
  have s: "\<not> base_setUp_result ?nosetup ?r" "?r\<lparr>super := base_after_setUp ?nosetup ?r\<rparr> = ?r"
    by (simp_all add: base_setUp_result_def base_after_setUp_def)
  have t: "\<not> fst (Renderer_tearDown ?noteardown (super example_live))"
    by simp
  have e: "glGetError ?glerror \<noteq> GL_NO_ERROR" "glGetError ?glerror = 1285"
    by (simp_all add: GL_NO_ERROR_def)
  show ?thesis
    using base_failures_and_gl_errors_propagate [where ext = ?nosetup and r = ?r]
      base_failures_and_gl_errors_propagate [where ext = ?noteardown and r = example_live]
      base_failures_and_gl_errors_propagate
        [where ext = ?glerror and r = example_live and offscreen = False]
      s t e live_example
    by simp
qed

subsection \<open>C8: workload 0\<close>

text \<open>
  C8. For workload 0, \<open>count\<close> is \<open>pow(2, -1) = 0.5\<close>; each loop still runs once, because
  \<open>0 < 0.5\<close>. A successful \<^verbatim>\<open>setUp\<close> builds a scene graph with exactly one
  transformation node, which has one mesh child and a transform that scales by 2 and
  translates by \<open>(-0.25, -0.25, 0)\<close>.
\<close>

theorem setUp_workload_zero_single_node:
  assumes "base_setUp_result ext r"
    and "createProgram_result ext \<noteq> 0"
    and "genRandTex_result ext r \<noteq> 0"
    and "workload ext r = 0"
  shows "pow2f (workload ext r - 1) = Finite (1 / 2) \<and>
    returned (setUp ext r) = Some True \<and>
    scene_children (setUp ext r) =
      [TransformationNode
         (Matrix_translate (Matrix_newScale (Finite 2) (Finite 2) (Finite 2))
            (Finite (- (1 / 4))) (Finite (- (1 / 4))) (Finite 0))
         [FullPipelineMesh (quad_mesh ext r)]]"
proof -
  have "pow2f (- 1) = Finite (1 / 2)"
    using f32_round_pow2 [of "- 1"] by (simp add: pow2f_def)
  then show ?thesis
    using assms by (simp add: setUp_zero returned_def scene_children_def)
qed

text \<open>C8, witness: the example surface with workload 0.\<close>

theorem setUp_workload_zero_single_node_witness:
  "base_setUp_result example_externals (new_FullPipelineRenderer (example_base 0) 0) \<and>
   createProgram_result example_externals \<noteq> 0 \<and>
   genRandTex_result example_externals (new_FullPipelineRenderer (example_base 0) 0) \<noteq> 0 \<and>
   workload example_externals (new_FullPipelineRenderer (example_base 0) 0) = 0 \<and>
   returned (setUp example_externals (new_FullPipelineRenderer (example_base 0) 0)) = Some True \<and>
   scene_children (setUp example_externals (new_FullPipelineRenderer (example_base 0) 0)) =
     [TransformationNode
        (Matrix_translate (Matrix_newScale (Finite 2) (Finite 2) (Finite 2))
           (Finite (- (1 / 4))) (Finite (- (1 / 4))) (Finite 0))
        [FullPipelineMesh (Mesh FP_VERTICES FP_NORMALS FP_TEX_COORDS FP_NUM_VERTICES 5)]]"
proof -
  let ?ext = example_externals and ?r = "new_FullPipelineRenderer (example_base 0) 0"
  have ok: "base_setUp_result ?ext ?r" "createProgram_result ?ext \<noteq> 0"
    "genRandTex_result ?ext ?r \<noteq> 0"
    by (simp_all add: base_setUp_result_def createProgram_result_def genRandTex_result_def
        base_after_setUp_def example_externals_def)
  have w: "workload ?ext ?r = 0"
    by (simp add: workload_def base_after_setUp_def example_externals_def
        new_FullPipelineRenderer_def example_base_def)
  have m: "quad_mesh ?ext ?r = Mesh FP_VERTICES FP_NORMALS FP_TEX_COORDS FP_NUM_VERTICES 5"
    by (simp add: quad_mesh_def genRandTex_result_def example_externals_def)
  show ?thesis
    using setUp_workload_zero_single_node [OF ok w] ok w m by simp
qed

subsection \<open>C9: a failed texture leaves the earlier allocations in place\<close>

text \<open>
  C9. When \<^verbatim>\<open>setUp\<close> returns \<open>false\<close> because \<^verbatim>\<open>GLUtils::genRandTex\<close> answers 0, the
  program and the model, view and projection matrices have been allocated and are still
  set on the renderer; the mesh and the scene graph, \<^verbatim>\<open>NULL\<close> before the call, are still
  \<^verbatim>\<open>NULL\<close>; and nothing was rolled back: the only outside calls are
  \<^verbatim>\<open>Renderer::setUp\<close>, \<^verbatim>\<open>createProgram\<close> and \<^verbatim>\<open>genRandTex\<close>.
\<close>

theorem setUp_texture_failure_not_rolled_back:
  assumes "base_setUp_result ext r"
    and "createProgram_result ext \<noteq> 0"
    and "genRandTex_result ext r = 0"
    and "mMesh r = None" and "mSceneGraph r = None"
  shows "\<exists>r'. setUp ext r = Some (False, r', setUp_calls ext r) \<and>
    mProgram r' = Some (FullPipelineProgram (createProgram_result ext)) \<and>
    mModelMatrix r' = Some Matrix_new \<and>
    mViewMatrix r' =
      Some (Matrix_newLookAt (Finite 0) (Finite 0) (Finite 2) (Finite 0) (Finite 0) (Finite 0)
              (Finite 0) (Finite 1) (Finite 0)) \<and>
    mProjectionMatrix r' \<noteq> None \<and>
    mMesh r' = None \<and> mSceneGraph r' = None \<and> mTextureId r' = 0"
  using assms by (simp add: setUp_texture_fails setUp_prepared_def)

text \<open>
  C9, witness: a new renderer on the example surface, with a texture generator that
  answers 0.
\<close>

theorem setUp_texture_failure_not_rolled_back_witness:
  "base_setUp_result (example_externals\<lparr>GLUtils_genRandTex := (\<lambda>w h. 0)\<rparr>)
     (new_FullPipelineRenderer (example_base 1) 0) \<and>
   createProgram_result (example_externals\<lparr>GLUtils_genRandTex := (\<lambda>w h. 0)\<rparr>) \<noteq> 0 \<and>
   genRandTex_result (example_externals\<lparr>GLUtils_genRandTex := (\<lambda>w h. 0)\<rparr>)
     (new_FullPipelineRenderer (example_base 1) 0) = 0 \<and>
   mMesh (new_FullPipelineRenderer (example_base 1) 0) = None \<and>
   mSceneGraph (new_FullPipelineRenderer (example_base 1) 0) = None \<and>
   (\<exists>r'. setUp (example_externals\<lparr>GLUtils_genRandTex := (\<lambda>w h. 0)\<rparr>)
            (new_FullPipelineRenderer (example_base 1) 0) =
          Some (False, r',
            [Call_Renderer_setUp, Call_createProgram FP_VERTEX FP_FRAGMENT,
             Call_genRandTex 640 480]) \<and>
      mProgram r' = Some (FullPipelineProgram 3) \<and>
      mModelMatrix r' = Some Matrix_new \<and>
      mProjectionMatrix r' \<noteq> None \<and>
      mMesh r' = None \<and> mSceneGraph r' = None)"
proof -
  let ?ext = "example_externals\<lparr>GLUtils_genRandTex := (\<lambda>w h. 0)\<rparr>"
  let ?r = "new_FullPipelineRenderer (example_base 1) 0"
  have ok: "base_setUp_result ?ext ?r" "createProgram_result ?ext \<noteq> 0"
    "genRandTex_result ?ext ?r = 0"
    by (simp_all add: base_setUp_result_def createProgram_result_def genRandTex_result_def
        base_after_setUp_def example_externals_def)
  have null: "mMesh ?r = None" "mSceneGraph ?r = None"
    by (simp_all add: new_FullPipelineRenderer_def)
  have calls: "setUp_calls ?ext ?r =
      [Call_Renderer_setUp, Call_createProgram FP_VERTEX FP_FRAGMENT, Call_genRandTex 640 480]"
    by (simp add: setUp_calls_def base_after_setUp_def example_externals_def
        new_FullPipelineRenderer_def example_base_def)
  have p: "createProgram_result ?ext = 3"
    by (simp add: createProgram_result_def example_externals_def)
  from setUp_texture_failure_not_rolled_back [OF ok null]
  obtain r' where "setUp ?ext ?r = Some (False, r', setUp_calls ?ext ?r)"
    "mProgram r' = Some (FullPipelineProgram (createProgram_result ?ext))"
    "mModelMatrix r' = Some Matrix_new" "mProjectionMatrix r' \<noteq> None"
    "mMesh r' = None" "mSceneGraph r' = None"
    by blast
  then have "\<exists>r'. setUp ?ext ?r =
          Some (False, r',
            [Call_Renderer_setUp, Call_createProgram FP_VERTEX FP_FRAGMENT,
             Call_genRandTex 640 480]) \<and>
      mProgram r' = Some (FullPipelineProgram 3) \<and>
      mModelMatrix r' = Some Matrix_new \<and>
      mProjectionMatrix r' \<noteq> None \<and>
      mMesh r' = None \<and> mSceneGraph r' = None"
    unfolding calls p by blast
  with ok null show ?thesis by blast
qed

subsection \<open>C10: the texture is released once, before the base class is called\<close>

text \<open>
  C10. \<^verbatim>\<open>tearDown\<close> calls \<^verbatim>\<open>glDeleteTextures\<close> exactly when \<^verbatim>\<open>mTextureId\<close> is not 0,
  once, with that id, and before it calls \<^verbatim>\<open>Renderer::tearDown\<close>; the handle is 0
  afterwards, whether \<^verbatim>\<open>tearDown\<close> then returns \<open>true\<close> or \<open>false\<close>; and a second
  \<^verbatim>\<open>tearDown\<close>, whatever the outside code answers then, deletes no texture and leaves
  the handle 0.
\<close>

theorem tearDown_releases_texture_once:
  assumes "tearDown ext r = (ok, r', calls)"
  shows "mTextureId r' = 0 \<and>
    deleted_textures calls = (if mTextureId r \<noteq> 0 then [mTextureId r] else []) \<and>
    takeWhile (\<lambda>c. c \<noteq> Call_Renderer_tearDown) calls =
      (if mTextureId r \<noteq> 0 then [Call_glDeleteTextures (mTextureId r)] else []) \<and>
    deleted_textures (snd (snd (tearDown ext' r'))) = [] \<and>
    mTextureId (fst (snd (tearDown ext' r'))) = 0"
proof -
  have first: "mTextureId r' = 0 \<and>
    deleted_textures calls = (if mTextureId r \<noteq> 0 then [mTextureId r] else []) \<and>
    takeWhile (\<lambda>c. c \<noteq> Call_Renderer_tearDown) calls =
      (if mTextureId r \<noteq> 0 then [Call_glDeleteTextures (mTextureId r)] else [])"
  proof (cases "fst (Renderer_tearDown ext (super r))")
    case True
    from assms show ?thesis
      unfolding tearDown_base_ok [OF True] by auto
  next
    case False
    from assms show ?thesis
      unfolding tearDown_base_fails [OF False] by auto
  qed
  then have zero: "mTextureId r' = 0" by simp
  have "deleted_textures (snd (snd (tearDown ext' r'))) = [] \<and>
    mTextureId (fst (snd (tearDown ext' r'))) = 0"
  proof (cases "fst (Renderer_tearDown ext' (super r'))")
    case True
    show ?thesis
      unfolding tearDown_base_ok [OF True] using zero by simp
  next
    case False
    show ?thesis
      unfolding tearDown_base_fails [OF False] using zero by simp
  qed
  with first show ?thesis by simp
qed

text \<open>
  C10, witness: the example renderer, texture 5, torn down with a
  \<^verbatim>\<open>Renderer::tearDown\<close> that fails: the texture is deleted and the handle is 0 although
  \<^verbatim>\<open>tearDown\<close> returns \<open>false\<close>, and a second \<^verbatim>\<open>tearDown\<close> deletes no texture.
\<close>

theorem tearDown_releases_texture_once_witness:
  "tearDown (example_externals\<lparr>Renderer_tearDown := (\<lambda>b. (False, b))\<rparr>) example_live =
     (False, example_live\<lparr>mTextureId := 0\<rparr>, [Call_glDeleteTextures 5, Call_Renderer_tearDown]) \<and>
   mTextureId (example_live\<lparr>mTextureId := 0\<rparr>) = 0 \<and>
   deleted_textures [Call_glDeleteTextures 5, Call_Renderer_tearDown] = [5] \<and>
   deleted_textures (snd (snd (tearDown example_externals (example_live\<lparr>mTextureId := 0\<rparr>)))) = []"
proof -
  let ?ext = "example_externals\<lparr>Renderer_tearDown := (\<lambda>b. (False, b))\<rparr>"
  have f: "\<not> fst (Renderer_tearDown ?ext (super example_live))"
    by simp
  have run: "tearDown ?ext example_live =
     (False, example_live\<lparr>mTextureId := 0\<rparr>, [Call_glDeleteTextures 5, Call_Renderer_tearDown])"
    unfolding tearDown_base_fails [OF f] by (simp add: example_live_def)
  show ?thesis
    using tearDown_releases_texture_once [OF run, of example_externals] run by simp
qed

end
